theory Spec2Isabelle
  imports Main
begin

section \<open>Go values used by \<open>jws.go\<close>\<close>

text \<open>
  A Go \<open>string\<close> is an immutable sequence of bytes and a \<open>[]byte\<close> is a sequence of
  bytes; both are lists of \<open>char\<close> (a \<open>char\<close> is one byte). A Go \<open>error\<close> is known to
  \<open>jws.go\<close> only through its message (\<open>%v\<close>), so a non-nil error is its message and
  \<open>nil\<close> is \<open>None\<close>. A Go result pair \<open>(x, err)\<close> is a pair, as in the source.
\<close>

type_synonym bytes = "char list"
type_synonym go_error = string

subsection \<open>Algorithm and Header (lines 43-51 and 80-90)\<close>

definition ALG_NONE :: string where "ALG_NONE = ''none''"
definition ALG_HS256 :: string where "ALG_HS256 = ''HS256''"
definition ALG_RS256 :: string where "ALG_RS256 = ''RS256''"
definition ALG_ES256 :: string where "ALG_ES256 = ''ES256''"
definition ALG_ES512 :: string where "ALG_ES512 = ''ES512''"

record Header =
  Alg :: string
  Typ :: string
  Cty :: string
  Jku :: string
  Jwk :: string
  X5u :: string
  X5t :: string
  X5c :: string
  Kid :: string

text \<open>\<open>var header Header\<close>: the zero value.\<close>

definition Header_zero :: Header where
  "Header_zero = \<lparr>Alg = [], Typ = [], Cty = [], Jku = [], Jwk = [],
                   X5u = [], X5t = [], X5c = [], Kid = []\<rparr>"

text \<open>
  The struct tags of \<open>Header\<close>, in declaration order, exactly as the source spells them:
  \<open>Cty\<close> carries the tag \<open>typ\<close> and \<open>Jwk\<close> carries the tag \<open>jkw\<close>.
\<close>

datatype field = F_Alg | F_Typ | F_Cty | F_Jku | F_Jwk | F_X5u | F_X5t | F_X5c | F_Kid

definition Header_tags :: "(field \<times> string) list" where
  "Header_tags =
     [(F_Alg, ''alg''), (F_Typ, ''typ''), (F_Cty, ''typ''), (F_Jku, ''jku''),
      (F_Jwk, ''jkw''), (F_X5u, ''x5u''), (F_X5t, ''x5t''), (F_X5c, ''x5c''),
      (F_Kid, ''kid'')]"

fun set_field :: "field \<Rightarrow> string \<Rightarrow> Header \<Rightarrow> Header" where
  "set_field F_Alg v h = h\<lparr>Alg := v\<rparr>"
| "set_field F_Typ v h = h\<lparr>Typ := v\<rparr>"
| "set_field F_Cty v h = h\<lparr>Cty := v\<rparr>"
| "set_field F_Jku v h = h\<lparr>Jku := v\<rparr>"
| "set_field F_Jwk v h = h\<lparr>Jwk := v\<rparr>"
| "set_field F_X5u v h = h\<lparr>X5u := v\<rparr>"
| "set_field F_X5t v h = h\<lparr>X5t := v\<rparr>"
| "set_field F_X5c v h = h\<lparr>X5c := v\<rparr>"
| "set_field F_Kid v h = h\<lparr>Kid := v\<rparr>"

subsection \<open>Key material (lines 53-64)\<close>

text \<open>
  \<open>crypto.PublicKey\<close> is the empty interface: a key is any Go value, and the source
  inspects its dynamic type. The constructors are the dynamic types the source tests
  for; \<open>Other t\<close> is a value of any other type, \<open>t\<close> being what \<open>%T\<close> prints for it.
  Pointer keys are taken to be non-nil.
\<close>

record rsa_PublicKey =
  rsa_N :: int
  rsa_E :: int

record rsa_PrivateKey =
  rsa_Public :: rsa_PublicKey
  rsa_D :: int

record ecdsa_PublicKey =
  ec_Curve :: string
  ec_X :: int
  ec_Y :: int

record ecdsa_PrivateKey =
  ec_Public :: ecdsa_PublicKey
  ec_D :: int

datatype PublicKey =
    NilKey
  | NoneKeyType int
  | Bytes bytes
  | RSA_PublicKey rsa_PublicKey
  | RSA_PrivateKey rsa_PrivateKey
  | ECDSA_PublicKey ecdsa_PublicKey
  | ECDSA_PrivateKey ecdsa_PrivateKey
  | Other string

definition NoneKey :: PublicKey where
  "NoneKey = NoneKeyType 0"

text \<open>What \<open>%T\<close> prints.\<close>

fun type_name :: "PublicKey \<Rightarrow> string" where
  "type_name NilKey = ''<nil>''"
| "type_name (NoneKeyType _) = ''gojws.NoneKeyType''"
| "type_name (Bytes _) = ''[]uint8''"
| "type_name (RSA_PublicKey _) = ''*rsa.PublicKey''"
| "type_name (RSA_PrivateKey _) = ''*rsa.PrivateKey''"
| "type_name (ECDSA_PublicKey _) = ''*ecdsa.PublicKey''"
| "type_name (ECDSA_PrivateKey _) = ''*ecdsa.PrivateKey''"
| "type_name (Other t) = t"

text \<open>
  \<open>pubKey, ok := key.(*rsa.PublicKey)\<close>, and on failure
  \<open>privKey, ok := key.(*rsa.PrivateKey)\<close> with \<open>pubKey = &privKey.PublicKey\<close>
  (lines 147-154); the same for ECDSA (lines 168-176).
\<close>

fun rsa_key_of :: "PublicKey \<Rightarrow> rsa_PublicKey option" where
  "rsa_key_of (RSA_PublicKey pubKey) = Some pubKey"
| "rsa_key_of (RSA_PrivateKey privKey) = Some (rsa_Public privKey)"
| "rsa_key_of _ = None"

fun ecdsa_key_of :: "PublicKey \<Rightarrow> ecdsa_PublicKey option" where
  "ecdsa_key_of (ECDSA_PublicKey pubKey) = Some pubKey"
| "ecdsa_key_of (ECDSA_PrivateKey privKey) = Some (ec_Public privKey)"
| "ecdsa_key_of _ = None"

text \<open>
  A Key Provider (lines 62-64) may have state of its own (a cache, a remote key set):
  \<open>GetJWSKey\<close> takes the provider's state and returns the Go pair \<open>(key, err)\<close> and
  the new state.
\<close>

type_synonym 's KeyProvider = "Header \<Rightarrow> 's \<Rightarrow> (PublicKey \<times> go_error option) \<times> 's"

definition ProviderFromKey :: "PublicKey \<Rightarrow> 's KeyProvider" where
  "ProviderFromKey key = (\<lambda>h s. ((key, None), s))"

section \<open>The collaborators\<close>

subsection \<open>JSON documents and \<open>json.Unmarshal\<close> into a \<open>Header\<close>\<close>

datatype json =
    JNull
  | JBool bool
  | JNumber string
  | JString string
  | JArray "json list"
  | JObject "(string \<times> json) list"

subsection \<open>Hash objects (\<open>hash.Hash\<close>)\<close>

text \<open>
  A hash object holds what has been written to it; \<open>Sum\<close> digests all of it.
\<close>

datatype hash = HMAC_SHA256 bytes bytes | SHA256 bytes | SHA512 bytes


fun WriteString :: "hash \<Rightarrow> string \<Rightarrow> hash" where
  "WriteString (HMAC_SHA256 k w) s = HMAC_SHA256 k (w @ s)"
| "WriteString (SHA256 w) s = SHA256 (w @ s)"
| "WriteString (SHA512 w) s = SHA512 (w @ s)"

text \<open>
  What \<open>jws.go\<close> calls and does not define: \<open>safeDecode\<close> (a helper of the package,
  in another file), the syntax phase of \<open>encoding/json\<close> with the message of its type
  errors, and the primitives of \<open>crypto/...\<close>. They are parameters of the model.
\<close>

record deps =
  safeDecode :: "string \<Rightarrow> bytes \<times> go_error option"
  json_parse :: "bytes \<Rightarrow> go_error + json"
  json_type_error :: "json \<Rightarrow> string \<Rightarrow> go_error"
  hmac_sha256 :: "bytes \<Rightarrow> bytes \<Rightarrow> bytes"
  sha256 :: "bytes \<Rightarrow> bytes"
  sha512 :: "bytes \<Rightarrow> bytes"
  rsa_VerifyPKCS1v15 :: "rsa_PublicKey \<Rightarrow> bytes \<Rightarrow> bytes \<Rightarrow> go_error option"
  ecdsa_Verify :: "ecdsa_PublicKey \<Rightarrow> bytes \<Rightarrow> int \<Rightarrow> int \<Rightarrow> bool"

fun hash_Sum :: "'a deps_scheme \<Rightarrow> hash \<Rightarrow> bytes" where
  "hash_Sum L (HMAC_SHA256 k w) = hmac_sha256 L k w"
| "hash_Sum L (SHA256 w) = sha256 L w"
| "hash_Sum L (SHA512 w) = sha512 L w"

text \<open>
  \<open>encoding/json\<close> binds an object member to a struct field by the field's tag. When
  several fields of one struct carry the same tag, none of them is bound (all are
  dropped, without error).
\<close>

definition typeFields :: "(field \<times> string) list \<Rightarrow> (field \<times> string) list" where
  "typeFields fs = filter (\<lambda>(f, n). length (filter (\<lambda>(g, m). m = n) fs) = 1) fs"

text \<open>
  A member name selects the field whose tag it equals, and otherwise the first field
  whose tag it equals up to case. For an ASCII tag that is: letters compare without
  case, the Kelvin sign (bytes E2 84 AA) folds to \<open>k\<close> and the long s (bytes C5 BF)
  folds to \<open>s\<close>.
\<close>

definition upper :: "char \<Rightarrow> char" where
  "upper c = (let n = of_char c :: nat in if 97 \<le> n \<and> n \<le> 122 then char_of (n - 32) else c)"

fun equalFold :: "string \<Rightarrow> string \<Rightarrow> bool" where
  "equalFold [] k = (k = [])"
| "equalFold (c # cs) k =
     (if (c = CHR ''k'' \<or> c = CHR ''K'') \<and> take 3 k = [CHR 0xE2, CHR 0x84, CHR 0xAA]
        then equalFold cs (drop 3 k)
      else if (c = CHR ''s'' \<or> c = CHR ''S'') \<and> take 2 k = [CHR 0xC5, CHR 0xBF]
        then equalFold cs (drop 2 k)
      else (case k of [] \<Rightarrow> False | d # ds \<Rightarrow> upper c = upper d \<and> equalFold cs ds))"

definition lookup_field :: "string \<Rightarrow> field option" where
  "lookup_field key =
     (case find (\<lambda>(f, n). n = key) (typeFields Header_tags) of
        Some (f, n) \<Rightarrow> Some f
      | None \<Rightarrow> map_option fst (find (\<lambda>(f, n). equalFold n key) (typeFields Header_tags)))"

text \<open>
  The members of an object are stored in order. Every field of \<open>Header\<close> is of string
  kind: a JSON string is stored, \<open>null\<close> leaves the field as it is, any other value is
  a type error; the first type error is kept and returned at the end, the remaining
  members are still stored. A member that selects no field is skipped.
\<close>

fun object :: "'a deps_scheme \<Rightarrow> (string \<times> json) list \<Rightarrow> Header \<Rightarrow> go_error option
                 \<Rightarrow> Header \<times> go_error option" where
  "object L [] h saved = (h, saved)"
| "object L ((k, v) # kvs) h saved =
     (case lookup_field k of
        None \<Rightarrow> object L kvs h saved
      | Some f \<Rightarrow>
          (case v of
             JString s \<Rightarrow> object L kvs (set_field f s h) saved
           | JNull \<Rightarrow> object L kvs h saved
           | _ \<Rightarrow> object L kvs h
                    (case saved of None \<Rightarrow> Some (json_type_error L v k) | Some e \<Rightarrow> Some e)))"

text \<open>
  \<open>err = json.Unmarshal(data, &header)\<close>: a document that is not valid JSON is
  rejected as a whole; \<open>null\<close> stores nothing; a value that is not an object is a type
  error.
\<close>

definition Unmarshal :: "'a deps_scheme \<Rightarrow> bytes \<Rightarrow> Header \<Rightarrow> Header \<times> go_error option" where
  "Unmarshal L data h =
     (case json_parse L data of
        Inl e \<Rightarrow> (h, Some e)
      | Inr v \<Rightarrow>
          (case v of
             JNull \<Rightarrow> (h, None)
           | JObject kvs \<Rightarrow> object L kvs h None
           | _ \<Rightarrow> (h, Some (json_type_error L v []))))"

subsection \<open>\<open>strings.Split\<close> and \<open>big.Int.SetBytes\<close>\<close>

text \<open>
  \<open>strings.Split(s, sep)\<close> for a separator of one byte, as in \<open>Split(jws, ".")\<close>.
  The result is never empty (the empty string gives one empty segment), so the last
  case below is never taken.
\<close>

fun strings_Split :: "string \<Rightarrow> char \<Rightarrow> string list" where
  "strings_Split [] sep = [[]]"
| "strings_Split (c # cs) sep =
     (if c = sep then [] # strings_Split cs sep
      else (case strings_Split cs sep of
              p # ps \<Rightarrow> (c # p) # ps
            | [] \<Rightarrow> [[c]]))"

text \<open>\<open>SetBytes\<close> reads a big-endian unsigned integer.\<close>

definition SetBytes :: "bytes \<Rightarrow> int" where
  "SetBytes buf = foldl (\<lambda>a b. a * 256 + of_char b) 0 buf"

section \<open>\<open>VerifyAndDecode\<close> (lines 93-219)\<close>

text \<open>
  A call returns the Go pair \<open>(payload, err)\<close>, \<open>None\<close> being \<open>nil\<close>, or panics. Beside
  the outcome the model records the calls made to the Key Provider and to the
  cryptographic library, in order, and the provider's state after the call.
\<close>

datatype outcome = Return "bytes option" "go_error option" | Panic string

datatype call =
    Call_GetJWSKey Header
  | Call_Sum hash
  | Call_hmac_Equal bytes bytes
  | Call_VerifyPKCS1v15 rsa_PublicKey bytes bytes
  | Call_SetBytes bytes
  | Call_ecdsa_Verify ecdsa_PublicKey bytes int int

text \<open>
  The \<open>switch header.Alg\<close> statement (lines 122-210). \<open>None\<close> is leaving the switch
  for the code after it; \<open>Some out\<close> is a \<open>return\<close> or the \<open>panic\<close> inside it.
\<close>

definition switch_Alg :: "'a deps_scheme \<Rightarrow> Header \<Rightarrow> PublicKey \<Rightarrow> string list \<Rightarrow> bytes
                            \<Rightarrow> outcome option \<times> call list" where
  "switch_Alg L header key parts signature =
     (if Alg header = ALG_NONE then
        (if key \<noteq> NoneKey
         then (Some (Return None (Some ''Refusing to validate plaintext JWS'')), [])
         else (None, []))
      else if Alg header = ALG_HS256 then
        (case key of
           Bytes symmetricKey \<Rightarrow>
             (let hm = HMAC_SHA256 symmetricKey [];
                  hm = WriteString hm (parts ! 0);
                  hm = WriteString hm ''.'';
                  hm = WriteString hm (parts ! 1);
                  expectedSignature = hash_Sum L hm;
                  calls = [Call_Sum hm, Call_hmac_Equal expectedSignature signature]
              in if expectedSignature \<noteq> signature
                 then (Some (Return None (Some ''Signature verification failed'')), calls)
                 else (None, calls))
         | _ \<Rightarrow> (Some (Return None
                    (Some (''Expected symmetric ([]byte) key. Got '' @ type_name key))), []))
      else if Alg header = ALG_RS256 then
        (case rsa_key_of key of
           None \<Rightarrow> (Some (Return None (Some (''Expected RSA key. Got '' @ type_name key))), [])
         | Some pubKey \<Rightarrow>
             (let hs = SHA256 [];
                  hs = WriteString hs (parts ! 0);
                  hs = WriteString hs ''.'';
                  hs = WriteString hs (parts ! 1);
                  hashed = hash_Sum L hs;
                  err = rsa_VerifyPKCS1v15 L pubKey hashed signature;
                  calls = [Call_Sum hs, Call_VerifyPKCS1v15 pubKey hashed signature]
              in if err \<noteq> None
                 then (Some (Return None (Some ''Signature verification failed'')), calls)
                 else (None, calls)))
      else if Alg header = ALG_ES256 \<or> Alg header = ALG_ES512 then
        (case ecdsa_key_of key of
           None \<Rightarrow> (Some (Return None (Some (''Expected ECDSA key. Got '' @ type_name key))), [])
         | Some pubKey \<Rightarrow>
             (case (if Alg header = ALG_ES256 then Some (32 :: nat, 32 :: nat, SHA256 [])
                    else if Alg header = ALG_ES512 then Some (66, 66, SHA512 [])
                    else None) of
                None \<Rightarrow> (Some (Panic (''Alorithm logic error with '' @ Alg header)), [])
              | Some (rSize, sSize, hs) \<Rightarrow>
                  (if length signature \<noteq> rSize + sSize
                   then (Some (Return None (Some ''Signature verification failed'')), [])
                   else
                     (let r = SetBytes (take rSize signature);
                          s = SetBytes (drop rSize signature);
                          hs = WriteString hs (parts ! 0);
                          hs = WriteString hs ''.'';
                          hs = WriteString hs (parts ! 1);
                          hashed = hash_Sum L hs;
                          calls = [Call_SetBytes (take rSize signature),
                                   Call_SetBytes (drop rSize signature),
                                   Call_Sum hs, Call_ecdsa_Verify pubKey hashed r s]
                      in if \<not> ecdsa_Verify L pubKey hashed r s
                         then (Some (Return None (Some ''Signature verification failed'')), calls)
                         else (None, calls)))))
      else (Some (Return None (Some (''Unknown signature algorithm: '' @ Alg header))), []))"

definition VerifyAndDecode :: "'a deps_scheme \<Rightarrow> string \<Rightarrow> 's KeyProvider \<Rightarrow> 's
                                 \<Rightarrow> outcome \<times> call list \<times> 's" where
  "VerifyAndDecode L jws kp st =
     (let parts = strings_Split jws (CHR ''.'') in
      if length parts \<noteq> 3 then (Return None (Some ''Malformed JWS''), [], st)
      else
        (case safeDecode L (parts ! 0) of
           (data, Some err) \<Rightarrow> (Return None (Some (''Malformed JWS header: '' @ err)), [], st)
         | (data, None) \<Rightarrow>
        (case Unmarshal L data Header_zero of
           (header, Some err) \<Rightarrow> (Return None (Some (''Failed to decode header: '' @ err)), [], st)
         | (header, None) \<Rightarrow>
        (case kp header st of
           ((key, Some err), st') \<Rightarrow>
             (Return None (Some (''Failed to acquire public key: '' @ err)),
              [Call_GetJWSKey header], st')
         | ((key, None), st') \<Rightarrow>
        (case safeDecode L (parts ! 2) of
           (signature, Some err) \<Rightarrow>
             (Return None (Some (''Malformed JWS signature: '' @ err)),
              [Call_GetJWSKey header], st')
         | (signature, None) \<Rightarrow>
        (case switch_Alg L header key parts signature of
           (Some out, calls) \<Rightarrow> (out, Call_GetJWSKey header # calls, st')
         | (None, calls) \<Rightarrow>
        (case safeDecode L (parts ! 1) of
           (payload, Some err) \<Rightarrow>
             (Return None (Some (''Malformed JWS payload: '' @ err)),
              Call_GetJWSKey header # calls, st')
         | (payload, None) \<Rightarrow>
             (Return (Some payload) None, Call_GetJWSKey header # calls, st'))))))))"

section \<open>Concrete collaborators for the examples\<close>

subsection \<open>The transport decoding\<close>

text \<open>
  Modelled from the spec: \<open>safeDecode\<close>, the package's decoding helper, which is called
  by \<open>jws.go\<close> and defined elsewhere in the package. The spec asks for URL-safe
  base64 that accepts padded and unpadded input and rejects characters outside the
  URL-safe alphabet and malformed padding: the input is padded with \<open>=\<close> to a multiple
  of four and decoded in groups of four, only the last group may end in \<open>=\<close> or \<open>==\<close>.
\<close>

definition b64url_value :: "char \<Rightarrow> nat option" where
  "b64url_value c =
     (let n = of_char c :: nat in
      if 65 \<le> n \<and> n \<le> 90 then Some (n - 65)
      else if 97 \<le> n \<and> n \<le> 122 then Some (n - 71)
      else if 48 \<le> n \<and> n \<le> 57 then Some (n + 4)
      else if c = CHR ''-'' then Some 62
      else if c = CHR ''_'' then Some 63
      else None)"

fun b64url_groups :: "string \<Rightarrow> bytes option" where
  "b64url_groups [] = Some []"
| "b64url_groups [a, b, c, d] =
     (case (b64url_value a, b64url_value b) of
        (Some x, Some y) \<Rightarrow>
          (if c = CHR ''='' \<and> d = CHR ''='' then Some [char_of (x * 4 + y div 16)]
           else
             (case b64url_value c of
                None \<Rightarrow> None
              | Some z \<Rightarrow>
                  (if d = CHR ''=''
                   then Some [char_of (x * 4 + y div 16), char_of (y mod 16 * 16 + z div 4)]
                   else
                     (case b64url_value d of
                        None \<Rightarrow> None
                      | Some w \<Rightarrow>
                          Some [char_of (x * 4 + y div 16), char_of (y mod 16 * 16 + z div 4),
                                char_of (z mod 4 * 64 + w)]))))
      | _ \<Rightarrow> None)"
| "b64url_groups (a # b # c # d # rest) =
     (case (b64url_value a, b64url_value b, b64url_value c, b64url_value d) of
        (Some x, Some y, Some z, Some w) \<Rightarrow>
          map_option
            (\<lambda>bs. char_of (x * 4 + y div 16) # char_of (y mod 16 * 16 + z div 4)
                   # char_of (z mod 4 * 64 + w) # bs)
            (b64url_groups rest)
      | _ \<Rightarrow> None)"
| "b64url_groups _ = None"

definition safeDecode_b64url :: "string \<Rightarrow> bytes \<times> go_error option" where
  "safeDecode_b64url str =
     (let lenMod4 = length str mod 4;
          str = (if lenMod4 > 0 then str @ replicate (4 - lenMod4) (CHR ''='') else str)
      in case b64url_groups str of
           Some buf \<Rightarrow> (buf, None)
         | None \<Rightarrow> ([], Some ''illegal base64 data''))"

subsection \<open>The JSON documents of the examples\<close>

text \<open>
  What the syntax phase of \<open>encoding/json\<close> yields on the documents that occur in the
  examples. The empty document and the unterminated one are syntax errors; no other
  document is given to \<open>example_json\<close> below.
\<close>

definition example_documents :: "(bytes \<times> json) list" where
  \<open>example_documents =
     [(''{"alg":"none"}'', JObject [(''alg'', JString ''none'')]),
      (''{"alg":"HS256"}'', JObject [(''alg'', JString ''HS256'')]),
      (''{"alg":"RS256"}'', JObject [(''alg'', JString ''RS256'')]),
      (''{"alg":"ES256"}'', JObject [(''alg'', JString ''ES256'')]),
      (''{"alg":"ES512"}'', JObject [(''alg'', JString ''ES512'')]),
      (''{"alg":"XYZ999"}'', JObject [(''alg'', JString ''XYZ999'')]),
      (''{"alg":"none","typ":"JWT","cty":"json","jwk":"k1","jkw":"k2","kid":"7"}'',
       JObject [(''alg'', JString ''none''), (''typ'', JString ''JWT''),
                (''cty'', JString ''json''), (''jwk'', JString ''k1''),
                (''jkw'', JString ''k2''), (''kid'', JString ''7'')])]\<close>

definition example_json :: "bytes \<Rightarrow> go_error + json" where
  "example_json data =
     (case map_of example_documents data of
        Some v \<Rightarrow> Inr v
      | None \<Rightarrow> Inl ''unexpected end of JSON input'')"

subsection \<open>Stand-ins for the cryptographic primitives\<close>

text \<open>
  The theorems below hold for every choice of the primitives. The examples need some
  choice that can be computed; these are not SHA-2, RSA or ECDSA.
\<close>

definition example_deps :: deps where
  "example_deps =
     \<lparr>safeDecode = safeDecode_b64url,
      json_parse = example_json,
      json_type_error = (\<lambda>v name. ''json: cannot unmarshal into Go value''),
      hmac_sha256 = (\<lambda>k w. k @ w),
      sha256 = (\<lambda>w. take 32 (rev w)),
      sha512 = (\<lambda>w. take 64 (rev w)),
      rsa_VerifyPKCS1v15 =
        (\<lambda>pub hashed sig. if sig = hashed then None else Some ''crypto/rsa: verification error''),
      ecdsa_Verify = (\<lambda>pub hashed r s. r = ec_X pub \<and> s = ec_Y pub)\<rparr>"

definition example_ec_key :: ecdsa_PublicKey where
  "example_ec_key = \<lparr>ec_Curve = ''P-256'', ec_X = 0, ec_Y = 0\<rparr>"

text \<open>A provider with a state: it counts its calls and always answers with one key.\<close>

definition counting_provider :: "PublicKey \<Rightarrow> nat KeyProvider" where
  "counting_provider key = (\<lambda>h n. ((key, None), Suc n))"

section \<open>Auxiliary facts\<close>

lemma strings_Split_nonempty: "strings_Split s sep \<noteq> []"
  by (induction s) (auto split: list.splits)

lemma strings_Split_length: "length (strings_Split s sep) = Suc (count_list s sep)"
  by (induction s) (auto split: list.splits simp: strings_Split_nonempty)

text \<open>Whatever leaves the switch by \<open>return\<close> carries \<open>nil\<close> and an error.\<close>

lemma switch_Alg_returns:
  assumes "switch_Alg L header key parts signature = (Some out, calls)"
  shows "\<exists>e. out = Return None (Some e)"
  using assms
  by (auto simp: switch_Alg_def Let_def split: if_splits option.splits PublicKey.splits)

lemma switch_Alg_not_Malformed:
  assumes "switch_Alg L header key parts signature = (Some (Return p (Some e)), calls)"
  shows "e \<noteq> ''Malformed JWS''"
  using assms
  by (auto simp: switch_Alg_def Let_def split: if_splits option.splits PublicKey.splits)


lemma switch_Alg_unknown:
  assumes "Alg header \<notin> {ALG_NONE, ALG_HS256, ALG_RS256, ALG_ES256, ALG_ES512}"
  shows "switch_Alg L header key parts signature =
           (Some (Return None (Some (''Unknown signature algorithm: '' @ Alg header))), [])"
  using assms by (simp add: switch_Alg_def)


text \<open>
  The three signing branches with a key of the expected type: what is digested, what is
  checked, and when the switch is left without an error.
\<close>

lemma switch_Alg_HS256:
  assumes "Alg header = ALG_HS256"
  shows "switch_Alg L header (Bytes k) [p0, p1, p2] signature =
           (if hmac_sha256 L k (p0 @ ''.'' @ p1) \<noteq> signature
            then Some (Return None (Some ''Signature verification failed'')) else None,
            [Call_Sum (HMAC_SHA256 k (p0 @ ''.'' @ p1)),
             Call_hmac_Equal (hmac_sha256 L k (p0 @ ''.'' @ p1)) signature])"
  using assms
  by (simp add: switch_Alg_def Let_def ALG_NONE_def ALG_HS256_def)

lemma switch_Alg_RS256:
  assumes "Alg header = ALG_RS256" and "rsa_key_of key = Some pubKey"
  shows "switch_Alg L header key [p0, p1, p2] signature =
           (if rsa_VerifyPKCS1v15 L pubKey (sha256 L (p0 @ ''.'' @ p1)) signature \<noteq> None
            then Some (Return None (Some ''Signature verification failed'')) else None,
            [Call_Sum (SHA256 (p0 @ ''.'' @ p1)),
             Call_VerifyPKCS1v15 pubKey (sha256 L (p0 @ ''.'' @ p1)) signature])"
  using assms
  by (simp add: switch_Alg_def Let_def ALG_NONE_def ALG_HS256_def ALG_RS256_def)

lemma switch_Alg_ES:
  assumes "Alg header = ALG_ES256 \<and> n = 32 \<and> hs = SHA256 (p0 @ ''.'' @ p1)
         \<or> Alg header = ALG_ES512 \<and> n = 66 \<and> hs = SHA512 (p0 @ ''.'' @ p1)"
    and "ecdsa_key_of key = Some pubKey"
    and "length signature = n + n"
  shows "switch_Alg L header key [p0, p1, p2] signature =
           (if \<not> ecdsa_Verify L pubKey (hash_Sum L hs)
                   (SetBytes (take n signature)) (SetBytes (drop n signature))
            then Some (Return None (Some ''Signature verification failed'')) else None,
            [Call_SetBytes (take n signature), Call_SetBytes (drop n signature), Call_Sum hs,
             Call_ecdsa_Verify pubKey (hash_Sum L hs)
               (SetBytes (take n signature)) (SetBytes (drop n signature))])"
  using assms
  by (auto simp: switch_Alg_def Let_def ALG_NONE_def ALG_HS256_def ALG_RS256_def
        ALG_ES256_def ALG_ES512_def)


text \<open>
  The fields that \<open>encoding/json\<close> binds for \<open>Header\<close>: \<open>Typ\<close> and \<open>Cty\<close> share the
  tag \<open>typ\<close> and are both dropped; \<open>Jwk\<close> is bound to the name \<open>jkw\<close>.
\<close>

lemma typeFields_Header:
  "typeFields Header_tags =
     [(F_Alg, ''alg''), (F_Jku, ''jku''), (F_Jwk, ''jkw''), (F_X5u, ''x5u''),
      (F_X5t, ''x5t''), (F_X5c, ''x5c''), (F_Kid, ''kid'')]"
  by code_simp

lemma lookup_field_never_Typ_Cty:
  "lookup_field key \<noteq> Some F_Typ \<and> lookup_field key \<noteq> Some F_Cty"
  by (simp add: lookup_field_def typeFields_Header split: option.splits if_splits
           del: equalFold.simps)

lemma set_field_keeps_Typ_Cty:
  assumes "f \<noteq> F_Typ" and "f \<noteq> F_Cty"
  shows "Typ (set_field f v h) = Typ h \<and> Cty (set_field f v h) = Cty h"
  using assms by (cases f) simp_all

lemma object_keeps_Typ_Cty:
  "Typ (fst (object L kvs h saved)) = Typ h \<and> Cty (fst (object L kvs h saved)) = Cty h"
proof (induction kvs arbitrary: h saved)
  case Nil
  show ?case by simp
next
  case (Cons kv kvs)
  obtain k v where kv: "kv = (k, v)" by (cases kv)
  show ?case
  proof (cases "lookup_field k")
    case None
    with kv Cons.IH show ?thesis by simp
  next
    case (Some f)
    with lookup_field_never_Typ_Cty [of k] have "f \<noteq> F_Typ" "f \<noteq> F_Cty" by auto
    from set_field_keeps_Typ_Cty [OF this] kv Some Cons.IH show ?thesis
      by (cases v) simp_all
  qed
qed

section \<open>The properties\<close>






text \<open>
  C3, as the code has it. \<open>VerifyAndDecode\<close> fails with \<open>Malformed JWS\<close> exactly when
  splitting the input on the dot does not yield three segments, that is when the input
  does not hold exactly two dots; it then makes no call. Inputs of one, two or four
  segments fail so, and no input has zero segments. A segment may be empty: the count
  alone is tested.
\<close>

theorem C3_malformed_iff_not_three_segments:
  "(fst (VerifyAndDecode L jws kp st) = Return None (Some ''Malformed JWS'')
      \<longleftrightarrow> length (strings_Split jws (CHR ''.'')) \<noteq> 3)
   \<and> (length (strings_Split jws (CHR ''.'')) \<noteq> 3 \<longrightarrow>
        VerifyAndDecode L jws kp st = (Return None (Some ''Malformed JWS''), [], st))
   \<and> length (strings_Split jws (CHR ''.'')) = Suc (count_list jws (CHR ''.''))"
proof (intro conjI)
  show "fst (VerifyAndDecode L jws kp st) = Return None (Some ''Malformed JWS'')
      \<longleftrightarrow> length (strings_Split jws (CHR ''.'')) \<noteq> 3"
    by (auto simp: VerifyAndDecode_def Let_def split: if_splits prod.splits option.splits
             dest: switch_Alg_not_Malformed)
next
  show "length (strings_Split jws (CHR ''.'')) \<noteq> 3 \<longrightarrow>
        VerifyAndDecode L jws kp st = (Return None (Some ''Malformed JWS''), [], st)"
    by (simp add: VerifyAndDecode_def)
next
  show "length (strings_Split jws (CHR ''.'')) = Suc (count_list jws (CHR ''.''))"
    by (rule strings_Split_length)
qed

theorem C3_malformed_iff_not_three_segments_witness:
  "VerifyAndDecode example_deps ''eyJhbGciOiJub25lIn0'' (counting_provider NoneKey) 0
     = (Return None (Some ''Malformed JWS''), [], 0)
   \<and> VerifyAndDecode example_deps ''eyJhbGciOiJub25lIn0.aGVsbG8'' (counting_provider NoneKey) 0
     = (Return None (Some ''Malformed JWS''), [], 0)
   \<and> VerifyAndDecode example_deps ''eyJhbGciOiJub25lIn0.aGVsbG8.c2ln.c2ln''
        (counting_provider NoneKey) 0
     = (Return None (Some ''Malformed JWS''), [], 0)"
proof -
  have l1: "length (strings_Split ''eyJhbGciOiJub25lIn0'' (CHR ''.'')) \<noteq> 3"
    by code_simp
  have l2: "length (strings_Split ''eyJhbGciOiJub25lIn0.aGVsbG8'' (CHR ''.'')) \<noteq> 3"
    by code_simp
  have l4: "length (strings_Split ''eyJhbGciOiJub25lIn0.aGVsbG8.c2ln.c2ln'' (CHR ''.'')) \<noteq> 3"
    by code_simp
  from C3_malformed_iff_not_three_segments
         [of example_deps "''eyJhbGciOiJub25lIn0''" "counting_provider NoneKey" 0] l1
       C3_malformed_iff_not_three_segments
         [of example_deps "''eyJhbGciOiJub25lIn0.aGVsbG8''" "counting_provider NoneKey" 0] l2
       C3_malformed_iff_not_three_segments
         [of example_deps "''eyJhbGciOiJub25lIn0.aGVsbG8.c2ln.c2ln''"
             "counting_provider NoneKey" 0] l4
  show ?thesis by blast
qed

text \<open>
  C3 as stated fails. The unsecured token \<open>eyJhbGciOiJub25lIn0.aGVsbG8.\<close> splits
  into three segments of which the last is empty, and \<open>VerifyAndDecode\<close> does not fail
  on it: with the \<open>NoneKey\<close> provider it returns the payload.
\<close>

theorem C3_empty_segment_counterexample:
  "strings_Split ''eyJhbGciOiJub25lIn0.aGVsbG8.'' (CHR ''.'')
     = [''eyJhbGciOiJub25lIn0'', ''aGVsbG8'', '''']
   \<and> VerifyAndDecode example_deps ''eyJhbGciOiJub25lIn0.aGVsbG8.'' (ProviderFromKey NoneKey) ()
     = (Return (Some ''hello'') None, [Call_GetJWSKey (Header_zero\<lparr>Alg := ''none''\<rparr>)], ())"
  by code_simp

text \<open>
  C4 fails on the code. Whatever the header document is, the \<open>Header\<close> that
  \<open>json.Unmarshal\<close> fills has empty \<open>Typ\<close> and \<open>Cty\<close>, and the wire names \<open>typ\<close>,
  \<open>cty\<close> and \<open>jwk\<close> select no field. On the header
  \<open>{"alg":"none","typ":"JWT","cty":"json","jwk":"k1","jkw":"k2","kid":"7"}\<close> the Key
  Provider is given \<open>Typ\<close> and \<open>Cty\<close> empty and \<open>Jwk\<close> holding the value of the
  member \<open>jkw\<close>; only \<open>alg\<close> and \<open>kid\<close> arrive as sent.
\<close>

theorem C4_typ_cty_jwk_not_passed:
  "Typ (fst (Unmarshal L data Header_zero)) = []
   \<and> Cty (fst (Unmarshal L data Header_zero)) = []
   \<and> lookup_field ''typ'' = None \<and> lookup_field ''cty'' = None \<and> lookup_field ''jwk'' = None
   \<and> VerifyAndDecode example_deps
        ''eyJhbGciOiJub25lIiwidHlwIjoiSldUIiwiY3R5IjoianNvbiIsImp3ayI6ImsxIiwiamt3IjoiazIiLCJraWQiOiI3In0.aGVsbG8.''
        (ProviderFromKey NoneKey) ()
     = (Return (Some ''hello'') None,
        [Call_GetJWSKey \<lparr>Alg = ''none'', Typ = [], Cty = [], Jku = [], Jwk = ''k2'',
                          X5u = [], X5t = [], X5c = [], Kid = ''7''\<rparr>], ())"
proof (intro conjI)
  have z: "Typ Header_zero = [] \<and> Cty Header_zero = []"
    by (simp add: Header_zero_def)
  show "Typ (fst (Unmarshal L data Header_zero)) = []"
    using z object_keeps_Typ_Cty [of L _ Header_zero None]
    by (simp add: Unmarshal_def split: sum.splits json.splits)
  show "Cty (fst (Unmarshal L data Header_zero)) = []"
    using z object_keeps_Typ_Cty [of L _ Header_zero None]
    by (simp add: Unmarshal_def split: sum.splits json.splits)
  show "lookup_field ''typ'' = None" by code_simp
  show "lookup_field ''cty'' = None" by code_simp
  show "lookup_field ''jwk'' = None" by code_simp
  show "VerifyAndDecode example_deps
        ''eyJhbGciOiJub25lIiwidHlwIjoiSldUIiwiY3R5IjoianNvbiIsImp3ayI6ImsxIiwiamt3IjoiazIiLCJraWQiOiI3In0.aGVsbG8.''
        (ProviderFromKey NoneKey) ()
     = (Return (Some ''hello'') None,
        [Call_GetJWSKey \<lparr>Alg = ''none'', Typ = [], Cty = [], Jku = [], Jwk = ''k2'',
                          X5u = [], X5t = [], X5c = [], Kid = ''7''\<rparr>], ())"
    by code_simp
qed

text \<open>
  C5. With a header that declares ES256 (ES512) and a provider that returns an ECDSA
  key, public or private, a decoded signature whose length is not 64 (132) bytes makes
  \<open>VerifyAndDecode\<close> fail with the signature error, and the only call made is the one
  to the Key Provider: no \<open>SetBytes\<close> for R or S, no digest, no \<open>ecdsa.Verify\<close>.
\<close>

theorem C5_ecdsa_length_checked_first:
  assumes "strings_Split jws (CHR ''.'') = [p0, p1, p2]"
    and "safeDecode L p0 = (data, None)"
    and "Unmarshal L data Header_zero = (header, None)"
    and "Alg header = ALG_ES256 \<and> n = 64 \<or> Alg header = ALG_ES512 \<and> n = 132"
    and "kp header st = ((key, None), st')"
    and "key = ECDSA_PublicKey pubKey \<or> key = ECDSA_PrivateKey privKey"
    and "safeDecode L p2 = (signature, None)"
    and "length signature \<noteq> n"
  shows "VerifyAndDecode L jws kp st
           = (Return None (Some ''Signature verification failed''), [Call_GetJWSKey header], st')"
  using assms
  by (auto simp: VerifyAndDecode_def Let_def switch_Alg_def ALG_NONE_def ALG_HS256_def
        ALG_RS256_def ALG_ES256_def ALG_ES512_def NoneKey_def)

theorem C5_ecdsa_length_checked_first_witness:
  "VerifyAndDecode example_deps ''eyJhbGciOiJFUzI1NiJ9.aGVsbG8.c2ln''
      (counting_provider (ECDSA_PublicKey example_ec_key)) 0
     = (Return None (Some ''Signature verification failed''),
        [Call_GetJWSKey (Header_zero\<lparr>Alg := ''ES256''\<rparr>)], 1)
   \<and> VerifyAndDecode example_deps ''eyJhbGciOiJFUzUxMiJ9.aGVsbG8.c2ln''
      (counting_provider (ECDSA_PrivateKey \<lparr>ec_Public = example_ec_key, ec_D = 1\<rparr>)) 0
     = (Return None (Some ''Signature verification failed''),
        [Call_GetJWSKey (Header_zero\<lparr>Alg := ''ES512''\<rparr>)], 1)"
proof -
  have p256: "strings_Split ''eyJhbGciOiJFUzI1NiJ9.aGVsbG8.c2ln'' (CHR ''.'')
      = [''eyJhbGciOiJFUzI1NiJ9'', ''aGVsbG8'', ''c2ln'']"
    by code_simp
  have p512: "strings_Split ''eyJhbGciOiJFUzUxMiJ9.aGVsbG8.c2ln'' (CHR ''.'')
      = [''eyJhbGciOiJFUzUxMiJ9'', ''aGVsbG8'', ''c2ln'']"
    by code_simp
  have d256: \<open>safeDecode example_deps ''eyJhbGciOiJFUzI1NiJ9'' = (''{"alg":"ES256"}'', None)\<close>
    by code_simp
  have d512: \<open>safeDecode example_deps ''eyJhbGciOiJFUzUxMiJ9'' = (''{"alg":"ES512"}'', None)\<close>
    by code_simp
  have u256: \<open>Unmarshal example_deps ''{"alg":"ES256"}'' Header_zero
      = (Header_zero\<lparr>Alg := ''ES256''\<rparr>, None)\<close>
    by code_simp
  have u512: \<open>Unmarshal example_deps ''{"alg":"ES512"}'' Header_zero
      = (Header_zero\<lparr>Alg := ''ES512''\<rparr>, None)\<close>
    by code_simp
  have a256: "Alg (Header_zero\<lparr>Alg := ''ES256''\<rparr>) = ALG_ES256 \<and> (64 :: nat) = 64
      \<or> Alg (Header_zero\<lparr>Alg := ''ES256''\<rparr>) = ALG_ES512 \<and> (64 :: nat) = 132"
    by (simp add: ALG_ES256_def)
  have a512: "Alg (Header_zero\<lparr>Alg := ''ES512''\<rparr>) = ALG_ES256 \<and> (132 :: nat) = 64
      \<or> Alg (Header_zero\<lparr>Alg := ''ES512''\<rparr>) = ALG_ES512 \<and> (132 :: nat) = 132"
    by (simp add: ALG_ES512_def)
  have k256: "counting_provider (ECDSA_PublicKey example_ec_key)
                (Header_zero\<lparr>Alg := ''ES256''\<rparr>) 0
              = ((ECDSA_PublicKey example_ec_key, None), 1)"
    by (simp add: counting_provider_def)
  have k512: "counting_provider (ECDSA_PrivateKey \<lparr>ec_Public = example_ec_key, ec_D = 1\<rparr>)
                (Header_zero\<lparr>Alg := ''ES512''\<rparr>) 0
              = ((ECDSA_PrivateKey \<lparr>ec_Public = example_ec_key, ec_D = 1\<rparr>, None), 1)"
    by (simp add: counting_provider_def)
  have t256: "ECDSA_PublicKey example_ec_key = ECDSA_PublicKey example_ec_key
      \<or> ECDSA_PublicKey example_ec_key
          = ECDSA_PrivateKey \<lparr>ec_Public = example_ec_key, ec_D = 1\<rparr>"
    by simp
  have t512: "ECDSA_PrivateKey \<lparr>ec_Public = example_ec_key, ec_D = 1\<rparr>
        = ECDSA_PublicKey example_ec_key
      \<or> ECDSA_PrivateKey \<lparr>ec_Public = example_ec_key, ec_D = 1\<rparr>
          = ECDSA_PrivateKey \<lparr>ec_Public = example_ec_key, ec_D = 1\<rparr>"
    by simp
  have s: "safeDecode example_deps ''c2ln'' = (''sig'', None)"
    by code_simp
  have l: "length ''sig'' \<noteq> 64" "length ''sig'' \<noteq> 132"
    by simp_all
  from C5_ecdsa_length_checked_first
         [where kp = "counting_provider (ECDSA_PublicKey example_ec_key)" and st = 0,
          OF p256 d256 u256 a256 k256 t256 s l(1)]
       C5_ecdsa_length_checked_first
         [where kp = "counting_provider
                        (ECDSA_PrivateKey \<lparr>ec_Public = example_ec_key, ec_D = 1\<rparr>)"
            and st = 0,
          OF p512 d512 u512 a512 k512 t512 s l(2)]
  show ?thesis by simp
qed

text \<open>
  C6. When the header segment is not valid transport encoding, or decodes to bytes that
  \<open>json.Unmarshal\<close> rejects, \<open>VerifyAndDecode\<close> fails, with a message that tells the
  two cases apart, and it has made no call at all: the Key Provider is not invoked (its
  state is untouched) and nothing is digested or checked.
\<close>

theorem C6_header_fails_closed:
  assumes "strings_Split jws (CHR ''.'') = [p0, p1, p2]"
  shows "(\<forall>data e. safeDecode L p0 = (data, Some e) \<longrightarrow>
            VerifyAndDecode L jws kp st
              = (Return None (Some (''Malformed JWS header: '' @ e)), [], st))
       \<and> (\<forall>data header e. safeDecode L p0 = (data, None)
              \<and> Unmarshal L data Header_zero = (header, Some e) \<longrightarrow>
            VerifyAndDecode L jws kp st
              = (Return None (Some (''Failed to decode header: '' @ e)), [], st))
       \<and> (\<forall>e e'. ''Malformed JWS header: '' @ e \<noteq> ''Failed to decode header: '' @ e')"
  using assms
  by (auto simp: VerifyAndDecode_def Let_def)

theorem C6_header_fails_closed_witness:
  "VerifyAndDecode example_deps ''!!!.aGVsbG8.c2ln'' (counting_provider NoneKey) 0
     = (Return None (Some ''Malformed JWS header: illegal base64 data''), [], 0)
   \<and> VerifyAndDecode example_deps ''eyJhbGciOiJub25lIg.aGVsbG8.c2ln'' (counting_provider NoneKey) 0
     = (Return None (Some ''Failed to decode header: unexpected end of JSON input''), [], 0)"
proof -
  have p1: "strings_Split ''!!!.aGVsbG8.c2ln'' (CHR ''.'') = [''!!!'', ''aGVsbG8'', ''c2ln'']"
    by code_simp
  have p2: "strings_Split ''eyJhbGciOiJub25lIg.aGVsbG8.c2ln'' (CHR ''.'')
      = [''eyJhbGciOiJub25lIg'', ''aGVsbG8'', ''c2ln'']"
    by code_simp
  have d1: "safeDecode example_deps ''!!!'' = ([], Some ''illegal base64 data'')"
    by code_simp
  have d2: \<open>safeDecode example_deps ''eyJhbGciOiJub25lIg'' = (''{"alg":"none"'', None)\<close>
    by code_simp
  have u2: \<open>Unmarshal example_deps ''{"alg":"none"'' Header_zero
      = (Header_zero, Some ''unexpected end of JSON input'')\<close>
    by code_simp
  from C6_header_fails_closed [OF p1, of example_deps "counting_provider NoneKey" 0] d1
  have first: "VerifyAndDecode example_deps ''!!!.aGVsbG8.c2ln'' (counting_provider NoneKey) 0
     = (Return None (Some (''Malformed JWS header: '' @ ''illegal base64 data'')), [], 0)"
    by blast
  from C6_header_fails_closed [OF p2, of example_deps "counting_provider NoneKey" 0] d2 u2
  have second: "VerifyAndDecode example_deps ''eyJhbGciOiJub25lIg.aGVsbG8.c2ln''
       (counting_provider NoneKey) 0
     = (Return None (Some (''Failed to decode header: '' @ ''unexpected end of JSON input'')),
        [], 0)"
    by blast
  from first second show ?thesis by simp
qed

text \<open>
  C7, as the code has it. With a decoded header whose \<open>alg\<close> is none of \<open>none\<close>,
  \<open>HS256\<close>, \<open>RS256\<close>, \<open>ES256\<close>, \<open>ES512\<close>, \<open>VerifyAndDecode\<close> always fails. When the
  Key Provider returns a key and the signature segment is valid transport encoding,
  the error is \<open>Unknown signature algorithm\<close> followed by the offending value,
  whatever the key and the decoded signature bytes are, and the cryptographic library is
  not called. Otherwise the provider's error or the signature's decoding error is
  reported, as for every algorithm.
\<close>

theorem C7_unknown_algorithm:
  assumes "strings_Split jws (CHR ''.'') = [p0, p1, p2]"
    and "safeDecode L p0 = (data, None)"
    and "Unmarshal L data Header_zero = (header, None)"
    and "Alg header \<notin> {ALG_NONE, ALG_HS256, ALG_RS256, ALG_ES256, ALG_ES512}"
  shows "(\<exists>e. fst (VerifyAndDecode L jws kp st) = Return None (Some e))
       \<and> (\<forall>key st' signature.
            kp header st = ((key, None), st') \<and> safeDecode L p2 = (signature, None) \<longrightarrow>
            VerifyAndDecode L jws kp st
              = (Return None (Some (''Unknown signature algorithm: '' @ Alg header)),
                 [Call_GetJWSKey header], st'))
       \<and> (\<forall>key e st'. kp header st = ((key, Some e), st') \<longrightarrow>
            fst (VerifyAndDecode L jws kp st)
              = Return None (Some (''Failed to acquire public key: '' @ e)))
       \<and> (\<forall>key st' signature e.
            kp header st = ((key, None), st') \<and> safeDecode L p2 = (signature, Some e) \<longrightarrow>
            fst (VerifyAndDecode L jws kp st)
              = Return None (Some (''Malformed JWS signature: '' @ e)))"
  using assms
  by (auto simp: VerifyAndDecode_def Let_def switch_Alg_unknown split: prod.splits option.splits)

theorem C7_unknown_algorithm_witness:
  "VerifyAndDecode example_deps ''eyJhbGciOiJYWVo5OTkifQ.aGVsbG8.c2ln''
       (ProviderFromKey (Bytes ''secret'')) ()
     = (Return None (Some ''Unknown signature algorithm: XYZ999''),
        [Call_GetJWSKey (Header_zero\<lparr>Alg := ''XYZ999''\<rparr>)], ())"
proof -
  have p: "strings_Split ''eyJhbGciOiJYWVo5OTkifQ.aGVsbG8.c2ln'' (CHR ''.'')
      = [''eyJhbGciOiJYWVo5OTkifQ'', ''aGVsbG8'', ''c2ln'']"
    by code_simp
  have d: \<open>safeDecode example_deps ''eyJhbGciOiJYWVo5OTkifQ'' = (''{"alg":"XYZ999"}'', None)\<close>
    by code_simp
  have u: \<open>Unmarshal example_deps ''{"alg":"XYZ999"}'' Header_zero
      = (Header_zero\<lparr>Alg := ''XYZ999''\<rparr>, None)\<close>
    by code_simp
  have a: "Alg (Header_zero\<lparr>Alg := ''XYZ999''\<rparr>)
      \<notin> {ALG_NONE, ALG_HS256, ALG_RS256, ALG_ES256, ALG_ES512}"
    by (simp add: ALG_NONE_def ALG_HS256_def ALG_RS256_def ALG_ES256_def ALG_ES512_def)
  have k: "ProviderFromKey (Bytes ''secret'') (Header_zero\<lparr>Alg := ''XYZ999''\<rparr>) ()
      = ((Bytes ''secret'', None), ())"
    by (simp add: ProviderFromKey_def)
  have s: "safeDecode example_deps ''c2ln'' = (''sig'', None)"
    by code_simp
  from C7_unknown_algorithm [where kp = "ProviderFromKey (Bytes ''secret'')" and st = "()",
         OF p d u a] k s
  have "VerifyAndDecode example_deps ''eyJhbGciOiJYWVo5OTkifQ.aGVsbG8.c2ln''
       (ProviderFromKey (Bytes ''secret'')) ()
     = (Return None (Some (''Unknown signature algorithm: ''
                           @ Alg (Header_zero\<lparr>Alg := ''XYZ999''\<rparr>))),
        [Call_GetJWSKey (Header_zero\<lparr>Alg := ''XYZ999''\<rparr>)], ())"
    by blast
  then show ?thesis by simp
qed

text \<open>
  C7 as stated fails. The header of \<open>eyJhbGciOiJYWVo5OTkifQ.aGVsbG8.!!!\<close> carries
  \<open>XYZ999\<close>, and the error is the one of the signature segment, which is decoded
  before the switch: the signature's content is not indifferent.
\<close>

theorem C7_signature_segment_counterexample:
  "Alg (fst (Unmarshal example_deps (fst (safeDecode example_deps ''eyJhbGciOiJYWVo5OTkifQ''))
             Header_zero)) = ''XYZ999''
   \<and> fst (VerifyAndDecode example_deps ''eyJhbGciOiJYWVo5OTkifQ.aGVsbG8.!!!''
            (ProviderFromKey (Bytes ''secret'')) ())
     = Return None (Some ''Malformed JWS signature: illegal base64 data'')
   \<and> ''Malformed JWS signature: illegal base64 data'' \<noteq> ''Unknown signature algorithm: XYZ999''"
  by code_simp

text \<open>
  C8. Whenever \<open>VerifyAndDecode\<close> returns an error, the payload it returns with it is
  \<open>nil\<close>: for every input, every collaborator (also a \<open>safeDecode\<close> that hands back
  bytes together with its error) and every Key Provider.
\<close>

theorem C8_no_payload_on_error:
  assumes "fst (VerifyAndDecode L jws kp st) = Return payload err" and "err \<noteq> None"
  shows "payload = None"
  using assms
  by (auto simp: VerifyAndDecode_def Let_def split: if_splits prod.splits option.splits
           dest: switch_Alg_returns)

theorem C8_no_payload_on_error_witness:
  "fst (VerifyAndDecode example_deps ''eyJhbGciOiJub25lIn0.aGVsbG8.c2ln''
          (ProviderFromKey (Bytes ''secret'')) ())
     = Return None (Some ''Refusing to validate plaintext JWS'')
   \<and> Some ''Refusing to validate plaintext JWS'' \<noteq> (None :: go_error option)"
proof -
  have r: "fst (VerifyAndDecode example_deps ''eyJhbGciOiJub25lIn0.aGVsbG8.c2ln''
                  (ProviderFromKey (Bytes ''secret'')) ())
             = Return None (Some ''Refusing to validate plaintext JWS'')"
    by code_simp
  have e: "Some ''Refusing to validate plaintext JWS'' \<noteq> (None :: go_error option)"
    by simp
  from C8_no_payload_on_error [OF r e] r e show ?thesis by simp
qed



text \<open>
  C10. The \<open>panic\<close> of the ES256/ES512 branch (line 187) is unreachable: no input, no
  collaborator and no Key Provider makes \<open>VerifyAndDecode\<close> (or its switch alone)
  panic, because the branch is entered only when \<open>header.Alg\<close> is \<open>ES256\<close> or
  \<open>ES512\<close>, the two values its inner test distinguishes.
\<close>

theorem C10_dispatch_panic_unreachable:
  "fst (VerifyAndDecode L jws kp st) \<noteq> Panic msg
   \<and> fst (switch_Alg L header key parts signature) \<noteq> Some (Panic msg)"
proof
  show "fst (VerifyAndDecode L jws kp st) \<noteq> Panic msg"
    by (auto simp: VerifyAndDecode_def Let_def split: if_splits prod.splits option.splits
             dest: switch_Alg_returns)
next
  show "fst (switch_Alg L header key parts signature) \<noteq> Some (Panic msg)"
  proof
    assume "fst (switch_Alg L header key parts signature) = Some (Panic msg)"
    then obtain calls where
      "switch_Alg L header key parts signature = (Some (Panic msg), calls)"
      by (cases "switch_Alg L header key parts signature") simp
    from switch_Alg_returns [OF this] show False by simp
  qed
qed

end
